theory Spec2Isabelle
  imports Main "HOL-Library.Sublist"
begin

section \<open>Python strings\<close>

text \<open>
  A Python \<open>str\<close> is a sequence of Unicode code points; slicing, \<open>strip\<close>,
  \<open>replace\<close> and \<open>join\<close> all work on code points.  The punctuation that
  \<open>clean_text_for_pdf\<close> replaces lies outside the 8-bit range of \<^typ>\<open>char\<close>, so a
  string is modelled as the list of its code points.  \<open>py\<close> embeds an ASCII literal.
\<close>

type_synonym pystr = "nat list"

definition py :: "string \<Rightarrow> pystr" where
  "py s = map of_char s"

text \<open>\<open>sep.join(xs)\<close>\<close>

fun join :: "pystr \<Rightarrow> pystr list \<Rightarrow> pystr" where
  "join sep [] = []"
| "join sep [x] = x"
| "join sep (x # y # ys) = x @ sep @ join sep (y # ys)"

definition nl :: pystr where
  "nl = [10]"

definition dq :: pystr where
  "dq = [34]"

text \<open>
  \<open>str.isspace\<close> for one code point: the characters \<open>strip()\<close> removes.
\<close>

definition isspace :: "nat \<Rightarrow> bool" where
  "isspace c \<longleftrightarrow>
     (9 \<le> c \<and> c \<le> 13) \<or> (28 \<le> c \<and> c \<le> 32) \<or> c = 133 \<or> c = 160 \<or> c = 5760 \<or>
     (8192 \<le> c \<and> c \<le> 8202) \<or> c = 8232 \<or> c = 8233 \<or> c = 8239 \<or> c = 8287 \<or> c = 12288"

text \<open>\<open>s.strip()\<close>: leading and trailing whitespace removed.\<close>

definition strip :: "pystr \<Rightarrow> pystr" where
  "strip s = rev (dropWhile isspace (rev (dropWhile isspace s)))"


text \<open>\<open>s.split(sep)\<close> for a one-character separator; \<open>"".split("\n") == [""]\<close>.\<close>

fun split_on :: "nat \<Rightarrow> pystr \<Rightarrow> pystr list" where
  "split_on c [] = [] # []"
| "split_on c (x # xs) =
     (if x = c then [] # split_on c xs
      else (case split_on c xs of [] \<Rightarrow> [x] # [] | l # ls \<Rightarrow> (x # l) # ls))"

text \<open>\<open>sub in s\<close>\<close>

fun contains :: "pystr \<Rightarrow> pystr \<Rightarrow> bool" where
  "contains sub [] = (sub = [])"
| "contains sub (c # cs) = (prefix sub (c # cs) \<or> contains sub cs)"

text \<open>
  \<open>s.replace(old, new)\<close> for a non-empty \<open>old\<close>: left to right, non-overlapping.
  (With an empty \<open>old\<close> Python inserts \<open>new\<close> around every character; the program
  never does that, and the model returns the string unchanged there.)
\<close>

function replace :: "pystr \<Rightarrow> pystr \<Rightarrow> pystr \<Rightarrow> pystr" where
  "replace old new [] = []"
| "replace old new (c # cs) =
     (if old \<noteq> [] \<and> prefix old (c # cs)
      then new @ replace old new (drop (length old - 1) cs)
      else c # replace old new cs)"
  by pat_completeness auto
termination
  by (relation "measure (\<lambda>(old, new, s). length s)") auto

section \<open>Exceptions\<close>

text \<open>
  Every raise is a value.  \<open>except Exception\<close> catches the instances of
  \<open>Exception\<close> only; a bare \<open>except:\<close> also catches the others
  (\<open>KeyboardInterrupt\<close>, \<open>SystemExit\<close>), which are \<open>BaseException\<close> here.
  The argument is \<open>str(e)\<close>.
\<close>

datatype exn = Exception pystr | BaseException pystr

fun is_Exception :: "exn \<Rightarrow> bool" where
  "is_Exception (Exception m) = True"
| "is_Exception (BaseException m) = False"

fun exn_str :: "exn \<Rightarrow> pystr" where
  "exn_str (Exception m) = m"
| "exn_str (BaseException m) = m"

text \<open>A statement that may raise, followed by the rest of the block.\<close>

fun step :: "exn option \<Rightarrow> (exn + 'a) \<Rightarrow> exn + 'a" where
  "step None rest = rest"
| "step (Some e) rest = Inl e"

section \<open>Values of \<open>json.loads\<close>\<close>

text \<open>
  What \<open>json.loads\<close> can return: \<open>None\<close>, a bool, an int, a float (kept as the
  numeral's text), a str, a list, or a dict (as the list of its items).
\<close>

datatype json =
    JNull
  | JBool bool
  | JInt int
  | JFloat pystr
  | JStr pystr
  | JArr "json list"
  | JObj "(pystr \<times> json) list"

text \<open>\<open>v[key]\<close> with a string key: only a dict holding the key answers.\<close>

fun getitem :: "json \<Rightarrow> pystr \<Rightarrow> exn + json" where
  "getitem (JObj kvs) key =
     (case map_of kvs key of None \<Rightarrow> Inl (Exception (py ''KeyError'')) | Some v \<Rightarrow> Inr v)"
| "getitem v key = Inl (Exception (py ''TypeError''))"

text \<open>\<open>for item in v\<close>: a list gives its elements, a str its characters, a dict its keys.\<close>

fun iter :: "json \<Rightarrow> exn + json list" where
  "iter (JArr xs) = Inr xs"
| "iter (JStr s) = Inr (map (\<lambda>c. JStr [c]) s)"
| "iter (JObj kvs) = Inr (map (\<lambda>kv. JStr (fst kv)) kvs)"
| "iter v = Inl (Exception (py ''TypeError''))"

fun is_JStr :: "json \<Rightarrow> bool" where
  "is_JStr (JStr s) = True"
| "is_JStr v = False"

fun the_JStr :: "json \<Rightarrow> pystr" where
  "the_JStr (JStr s) = s"
| "the_JStr v = []"

text \<open>\<open>sep.join(v)\<close>: every item has to be a str.\<close>

definition join_json :: "pystr \<Rightarrow> json \<Rightarrow> exn + pystr" where
  "join_json sep v =
     (case iter v of
        Inl e \<Rightarrow> Inl e
      | Inr items \<Rightarrow>
          if list_all is_JStr items then Inr (join sep (map the_JStr items))
          else Inl (Exception (py ''TypeError'')))"

section \<open>Files, notices and the outside world\<close>

text \<open>
  The document objects of \<open>fpdf\<close> and \<open>python-docx\<close>, as far as the program fills
  them: the font selected and the text of the cell; the heading and the paragraphs.
\<close>

record pdf_doc =
  pdf_font :: pystr
  pdf_text :: pystr

record docx_doc =
  docx_heading :: pystr
  docx_paragraphs :: "pystr list"

datatype file_content = Bytes "nat list" | Pdf pdf_doc | Docx docx_doc

text \<open>\<open>st.warning\<close> and \<open>st.error\<close>\<close>

datatype notice = Warning pystr | Error pystr

text \<open>
  The state the functions act on: the files of the working directory, the paths the
  program holds an open handle on, the notices shown, the prompts sent to the model (in
  order), and how often the OCR fallback was entered.
\<close>

record world =
  fs :: "pystr \<Rightarrow> file_content option"
  open_files :: "pystr list"
  notices :: "notice list"
  prompts :: "pystr list"
  ocr_calls :: nat

text \<open>
  How writing \<open>temp.pdf\<close> goes: it succeeds, \<open>open\<close> raises (the file is untouched),
  or \<open>write\<close> raises after some bytes (the file was truncated by \<open>open\<close> and holds
  those bytes).
\<close>

datatype disk = Disk_ok | Open_raises exn | Write_raises exn nat

text \<open>
  The libraries and services the program calls, as parameters.  A page of
  \<open>pdfplumber\<close> is the outcome of its \<open>extract_text()\<close>: it raises, or returns
  \<open>None\<close> or a string.  \<open>generate_content\<close> stands for the request and the read of
  \<open>response.text\<close>; \<open>translate\<close> for constructing the \<open>Translator\<close>, the call and
  the read of \<open>translation.text\<close>.  The \<open>fpdf\<close> and \<open>docx\<close> calls return the
  exception they raise, if any.
\<close>

record 'img env =
  temp_disk :: disk
  pdfplumber_open :: "file_content option \<Rightarrow> exn + (exn + pystr option) list"
  convert_from_path :: "file_content option \<Rightarrow> exn + 'img list"
  image_to_string :: "'img \<Rightarrow> exn + pystr"
  detect :: "pystr \<Rightarrow> exn + pystr"
  translate :: "pystr \<Rightarrow> pystr \<Rightarrow> pystr \<Rightarrow> exn + pystr"
  generate_content :: "pystr \<Rightarrow> exn + pystr"
  json_loads :: "pystr \<Rightarrow> exn + json"
  fpdf_new_page :: "exn option"
  fpdf_add_font :: "pystr \<Rightarrow> exn option"
  fpdf_set_font :: "pystr \<Rightarrow> exn option"
  fpdf_multi_cell :: "pystr \<Rightarrow> pystr \<Rightarrow> exn option"
  fpdf_output :: "pystr \<Rightarrow> exn option"
  docx_new :: "exn option"
  docx_add_paragraph :: "pystr \<Rightarrow> exn option"
  docx_save :: "pystr \<Rightarrow> exn option"

definition warn :: "pystr \<Rightarrow> world \<Rightarrow> world" where
  "warn m w = w\<lparr>notices := notices w @ [Warning m]\<rparr>"

definition err :: "pystr \<Rightarrow> world \<Rightarrow> world" where
  "err m w = w\<lparr>notices := notices w @ [Error m]\<rparr>"

section \<open>PDF processing\<close>

definition temp_pdf :: pystr where
  "temp_pdf = py ''temp.pdf''"

text \<open>
  \<open>open(path, "wb")\<close> creates or truncates the file and hands out a handle;
  \<open>f.write\<close> puts bytes into it; leaving the \<open>with\<close> block closes the handle,
  also when the block raises.
\<close>

definition open_wb :: "pystr \<Rightarrow> world \<Rightarrow> world" where
  "open_wb path w = w\<lparr>fs := (fs w)(path \<mapsto> Bytes []), open_files := path # open_files w\<rparr>"

definition put_bytes :: "pystr \<Rightarrow> nat list \<Rightarrow> world \<Rightarrow> world" where
  "put_bytes path data w = w\<lparr>fs := (fs w)(path \<mapsto> Bytes data)\<rparr>"

definition close_file :: "pystr \<Rightarrow> world \<Rightarrow> world" where
  "close_file path w = w\<lparr>open_files := remove1 path (open_files w)\<rparr>"

text \<open>Lines 23-24: \<open>with open("temp.pdf", "wb") as f: f.write(uploaded_file.getbuffer())\<close>\<close>

fun write_temp :: "disk \<Rightarrow> nat list \<Rightarrow> world \<Rightarrow> (exn + unit) \<times> world" where
  "write_temp Disk_ok data w =
     (Inr (), close_file temp_pdf (put_bytes temp_pdf data (open_wb temp_pdf w)))"
| "write_temp (Open_raises e) data w = (Inl e, w)"
| "write_temp (Write_raises e n) data w =
     (Inl e, close_file temp_pdf (put_bytes temp_pdf (take n data) (open_wb temp_pdf w)))"

text \<open>
  Lines 27-30, the loop over \<open>pdf.pages\<close>: the outcome, and the value of \<open>text\<close>
  when the loop stops.
\<close>

fun extract_pages :: "(exn + pystr option) list \<Rightarrow> pystr \<Rightarrow> (exn + unit) \<times> pystr" where
  "extract_pages [] text = (Inr (), text)"
| "extract_pages (Inl e # pages) text = (Inl e, text)"
| "extract_pages (Inr None # pages) text = extract_pages pages text"
| "extract_pages (Inr (Some page_text) # pages) text =
     extract_pages pages (if page_text \<noteq> [] then text @ page_text else text)"

text \<open>Lines 39-40, the loop over the page images.\<close>

fun ocr_pages :: "('img \<Rightarrow> exn + pystr) \<Rightarrow> 'img list \<Rightarrow> pystr \<Rightarrow> exn + pystr" where
  "ocr_pages ocr [] text = Inr text"
| "ocr_pages ocr (img # images) text =
     (case ocr img of
        Inl e \<Rightarrow> Inl e
      | Inr s \<Rightarrow> ocr_pages ocr images (text @ s @ nl))"

text \<open>
  Lines 37-44, the second \<open>try\<close>: it starts from the \<open>text\<close> the first one left.
\<close>

definition ocr_fallback :: "'img env \<Rightarrow> pystr \<Rightarrow> world \<Rightarrow> (exn + pystr) \<times> world" where
  "ocr_fallback env text w =
     (let w1 = w\<lparr>ocr_calls := Suc (ocr_calls w)\<rparr> in
      case (case convert_from_path env (fs w temp_pdf) of
              Inl e \<Rightarrow> Inl e
            | Inr images \<Rightarrow> ocr_pages (image_to_string env) images text) of
        Inr t \<Rightarrow> (Inr (strip t), w1)
      | Inl e \<Rightarrow>
          if is_Exception e then (Inr [], err (py ''OCR failed: '' @ exn_str e) w1)
          else (Inl e, w1))"

text \<open>
  How a \<open>try\<close> body ends: with a \<open>return\<close>, by running to its end, or with an
  exception.
\<close>

datatype 'a outcome = Returns 'a | Falls_through | Raises exn

text \<open>
  Lines 22-33, the body of the first \<open>try\<close>: how it ends, and the value of \<open>text\<close>
  at that moment.  \<open>pdfplumber.open\<close> reads the file just written.
\<close>

definition first_try :: "'img env \<Rightarrow> nat list \<Rightarrow> world \<Rightarrow> (pystr outcome \<times> pystr) \<times> world" where
  "first_try env uploaded_file w =
     (case write_temp (temp_disk env) uploaded_file w of
        (Inl e, w1) \<Rightarrow> ((Raises e, []), w1)
      | (Inr u, w1) \<Rightarrow>
          (case pdfplumber_open env (fs w1 temp_pdf) of
             Inl e \<Rightarrow> ((Raises e, []), w1)
           | Inr pages \<Rightarrow>
               (case extract_pages pages [] of
                  (Inl e, text) \<Rightarrow> ((Raises e, text), w1)
                | (Inr u', text) \<Rightarrow>
                    if strip text \<noteq> [] then ((Returns (strip text), text), w1)
                    else ((Falls_through, text), w1))))"

text \<open>
  Lines 20-44.  An exception of the first \<open>try\<close> that is an \<open>Exception\<close> is shown
  as a warning and the OCR fallback runs; any other one leaves the function.  \<open>text\<close>
  is not reset in between.
\<close>

definition extract_text_from_pdf :: "'img env \<Rightarrow> nat list \<Rightarrow> world \<Rightarrow> (exn + pystr) \<times> world" where
  "extract_text_from_pdf env uploaded_file w =
     (case first_try env uploaded_file w of
        ((Returns r, text), w1) \<Rightarrow> (Inr r, w1)
      | ((Falls_through, text), w1) \<Rightarrow> ocr_fallback env text w1
      | ((Raises e, text), w1) \<Rightarrow>
          if is_Exception e
          then ocr_fallback env text (warn (py ''Direct extraction failed: '' @ exn_str e) w1)
          else (Inl e, w1))"

section \<open>Language support\<close>

text \<open>Lines 47-56.  The bare \<open>except:\<close> catches every exception.\<close>

definition detect_and_translate :: "'img env \<Rightarrow> pystr \<Rightarrow> pystr \<Rightarrow> exn + pystr" where
  "detect_and_translate env text target_lang =
     (case (case detect env text of
              Inl e \<Rightarrow> Inl e
            | Inr src_lang \<Rightarrow>
                if src_lang \<noteq> target_lang then translate env text src_lang target_lang
                else Inr text) of
        Inr r \<Rightarrow> Inr r
      | Inl e \<Rightarrow> Inr text)"

section \<open>Resume analysis\<close>

text \<open>\<open>if job_description:\<close> holds for a string that is not empty.\<close>

fun truthy :: "pystr option \<Rightarrow> bool" where
  "truthy None = False"
| "truthy (Some s) = (s \<noteq> [])"

text \<open>Lines 62-84: the list \<open>prompt\<close>, after the \<open>extend\<close> if there is one.\<close>

definition comparison_section :: "pystr \<Rightarrow> pystr list" where
  "comparison_section job_description =
     [py '''',
      py ''Job Description:'',
      job_description,
      py '''',
      py ''Compare and highlight:'',
      py ''- Matching qualifications'',
      py ''- Missing requirements'',
      py ''- Suggested adaptations'']"

definition analysis_prompt :: "pystr \<Rightarrow> pystr option \<Rightarrow> pystr \<Rightarrow> pystr list" where
  "analysis_prompt translated_text job_description language =
     [py ''Analyze this resume (originally in '' @ language @ py '') and provide:'',
      py ''1. Skills Summary (Technical & Soft Skills)'',
      py ''2. Missing Skills for Target Roles'',
      py ''3. Improvement Recommendations (Courses/Certifications)'',
      py ''4. Strengths & Weaknesses'',
      py ''5. '' @ (if truthy job_description then py ''Job Fit Analysis''
                   else py ''General Career Advice''),
      py '''',
      py ''Resume:'',
      translated_text]
     @ (case job_description of
          None \<Rightarrow> []
        | Some jd \<Rightarrow> if jd \<noteq> [] then comparison_section jd else [])"

text \<open>\<open>model.generate_content(prompt)\<close> and \<open>response.text\<close>; the prompt is logged.\<close>

definition send :: "'img env \<Rightarrow> pystr \<Rightarrow> world \<Rightarrow> (exn + pystr) \<times> world" where
  "send env prompt w = (generate_content env prompt, w\<lparr>prompts := prompts w @ [prompt]\<rparr>)"

text \<open>Lines 59-87.  Nothing is caught here.\<close>

definition analyze_resume ::
  "'img env \<Rightarrow> pystr \<Rightarrow> pystr option \<Rightarrow> pystr \<Rightarrow> world \<Rightarrow> (exn + pystr) \<times> world" where
  "analyze_resume env resume_text job_description language w =
     (case detect_and_translate env resume_text (py ''en'') of
        Inl e \<Rightarrow> (Inl e, w)
      | Inr translated_text \<Rightarrow>
          send env (join nl (analysis_prompt translated_text job_description language)) w)"

section \<open>ATS compliance check\<close>

text \<open>
  Lines 91-107 of \<open>app.py\<close>: the prompt is the join, on newlines, of fourteen
  fixed lines and the line \<open>"Resume: {}".format(resume_text[:2000])\<close>.
\<close>

definition ats_header :: "pystr list" where
  "ats_header =
    [py ''Evaluate ATS (Applicant Tracking System) compliance:'',
     py ''1. Keyword Optimization'',
     py ''2. Proper Headings'',
     py ''3. No Graphics/Tables'',
     py ''4. Standard Fonts'',
     py ''5. Correct File Format'',
     py ''6. Skills Match'',
     py ''7. Contact Info Visibility'',
     py '''',
     py ''Return JSON with:'',
     py ''{'' @ dq @ py ''strengths'' @ dq @ py '': [str],'',
     dq @ py ''weaknesses'' @ dq @ py '': [str],'',
     dq @ py ''suggestions'' @ dq @ py '': [str]}'',
     py '''']"

definition check_ats_prompt :: "pystr \<Rightarrow> pystr" where
  "check_ats_prompt resume_text =
     join nl (ats_header @ [py ''Resume: '' @ take 2000 resume_text])"

text \<open>Line 113, the record returned by the \<open>except\<close> branch.\<close>

definition empty_result :: json where
  "empty_result =
     JObj [(py ''strengths'', JArr []), (py ''weaknesses'', JArr []), (py ''suggestions'', JArr [])]"

text \<open>
  Lines 109-113: whatever \<open>json.loads\<close> returns is returned as it is; the bare
  \<open>except:\<close> replaces every exception by \<open>empty_result\<close>.
\<close>

definition check_ats_compliance :: "'img env \<Rightarrow> pystr \<Rightarrow> world \<Rightarrow> (exn + json) \<times> world" where
  "check_ats_compliance env resume_text w =
     (case send env (check_ats_prompt resume_text) w of
        (Inl e, w1) \<Rightarrow> (Inr empty_result, w1)
      | (Inr response_text, w1) \<Rightarrow>
          (case json_loads env response_text of
             Inl e \<Rightarrow> (Inr empty_result, w1)
           | Inr v \<Rightarrow> (Inr v, w1)))"

section \<open>Report generation\<close>

text \<open>
  Lines 116-128.  The dict is walked in insertion order; each key is one code point:
  en dash, em dash, the two curly single quotes, the two curly double quotes, ellipsis.
\<close>

definition replacements :: "(pystr \<times> pystr) list" where
  "replacements =
     [([8211], py ''-''),
      ([8212], py ''-''),
      ([8216], [39]),
      ([8217], [39]),
      ([8220], dq),
      ([8221], dq),
      ([8230], py ''...'')]"

definition clean_text_for_pdf :: "pystr \<Rightarrow> pystr" where
  "clean_text_for_pdf text = foldl (\<lambda>text (k, v). replace k v text) text replacements"

text \<open>
  Lines 132-146, the body of the outer \<open>try\<close>: the document that \<open>output\<close> writes,
  or the exception that leaves the block.  The inner bare \<open>except:\<close> catches whatever
  \<open>add_font\<close> or \<open>set_font("Arial")\<close> raises.
\<close>

definition arial :: pystr where
  "arial = py ''Arial''"

definition helvetica :: pystr where
  "helvetica = py ''Helvetica''"

definition pdf_finish :: "'img env \<Rightarrow> pystr \<Rightarrow> pystr \<Rightarrow> pystr \<Rightarrow> exn + pdf_doc" where
  "pdf_finish env font content filename =
     step (fpdf_multi_cell env font content)
       (step (fpdf_output env filename)
          (Inr \<lparr>pdf_font = font, pdf_text = content\<rparr>))"

definition pdf_body :: "'img env \<Rightarrow> pystr \<Rightarrow> pystr \<Rightarrow> exn + pdf_doc" where
  "pdf_body env content filename =
     step (fpdf_new_page env)
       (case step (fpdf_add_font env arial) (step (fpdf_set_font env arial) (Inr ())) of
          Inr u \<Rightarrow> pdf_finish env arial content filename
        | Inl e \<Rightarrow>
            step (fpdf_set_font env helvetica)
              (pdf_finish env helvetica (clean_text_for_pdf content) filename))"

text \<open>Lines 130-149.\<close>

definition generate_pdf_report ::
  "'img env \<Rightarrow> pystr \<Rightarrow> pystr \<Rightarrow> world \<Rightarrow> (exn + pystr option) \<times> world" where
  "generate_pdf_report env content filename w =
     (case pdf_body env content filename of
        Inr doc \<Rightarrow> (Inr (Some filename), w\<lparr>fs := (fs w)(filename \<mapsto> Pdf doc)\<rparr>)
      | Inl e \<Rightarrow>
          if is_Exception e then (Inr None, err (py ''PDF generation failed: '' @ exn_str e) w)
          else (Inl e, w))"

text \<open>Lines 155-157, the loop over \<open>content.split('\n')\<close>.\<close>

fun add_paragraphs :: "(pystr \<Rightarrow> exn option) \<Rightarrow> pystr list \<Rightarrow> pystr list \<Rightarrow> exn + pystr list" where
  "add_paragraphs add [] paragraphs = Inr paragraphs"
| "add_paragraphs add (line # lines) paragraphs =
     (if strip line \<noteq> []
      then (case add line of
              Some e \<Rightarrow> Inl e
            | None \<Rightarrow> add_paragraphs add lines (paragraphs @ [line]))
      else add_paragraphs add lines paragraphs)"

text \<open>Lines 151-162; \<open>docx_new\<close> stands for \<open>Document()\<close> and \<open>add_heading\<close>.\<close>

definition docx_body :: "'img env \<Rightarrow> pystr \<Rightarrow> pystr \<Rightarrow> exn + docx_doc" where
  "docx_body env content filename =
     step (docx_new env)
       (case add_paragraphs (docx_add_paragraph env) (split_on 10 content) [] of
          Inl e \<Rightarrow> Inl e
        | Inr paragraphs \<Rightarrow>
            step (docx_save env filename)
              (Inr \<lparr>docx_heading = py ''Resume Analysis Report'',
                    docx_paragraphs = paragraphs\<rparr>))"

definition generate_word_report ::
  "'img env \<Rightarrow> pystr \<Rightarrow> pystr \<Rightarrow> world \<Rightarrow> (exn + pystr option) \<times> world" where
  "generate_word_report env content filename w =
     (case docx_body env content filename of
        Inr doc \<Rightarrow> (Inr (Some filename), w\<lparr>fs := (fs w)(filename \<mapsto> Docx doc)\<rparr>)
      | Inl e \<Rightarrow>
          if is_Exception e
          then (Inr None, err (py ''Word report generation failed: '' @ exn_str e) w)
          else (Inl e, w))"

section \<open>The handler of "Run Full Analysis"\<close>

text \<open>
  Lines 169-232 for an uploaded file and a pressed button.  The two sidebar settings are
  arguments: \<open>language\<close> (one of en, es, fr, de) and \<open>analysis_depth\<close>.  What is
  written to the page is a function of the values kept here: the items listed from
  \<open>ats_data\<close>, the analysis, the report and the two paths offered for download.
\<close>

datatype depth = Basic | Detailed | Comprehensive

record outputs =
  resume_text_of :: pystr
  analysis_of :: pystr
  ats_data_of :: json
  strengths_shown :: "json list"
  suggestions_shown :: "json list"
  report_content_of :: pystr
  pdf_path_of :: "pystr option"
  docx_path_of :: "pystr option"

definition bind ::
  "(world \<Rightarrow> (exn + 'a) \<times> world) \<Rightarrow> ('a \<Rightarrow> world \<Rightarrow> (exn + 'b) \<times> world) \<Rightarrow>
   world \<Rightarrow> (exn + 'b) \<times> world" where
  "bind m f w = (case m w of (Inl e, w1) \<Rightarrow> (Inl e, w1) | (Inr v, w1) \<Rightarrow> f v w1)"

definition pure :: "(exn + 'a) \<Rightarrow> world \<Rightarrow> (exn + 'a) \<times> world" where
  "pure r w = (r, w)"

text \<open>Lines 197 and 201: \<open>for item in ats_data[key]\<close>\<close>

definition items_of :: "json \<Rightarrow> pystr \<Rightarrow> exn + json list" where
  "items_of ats_data key = (case getitem ats_data key of Inl e \<Rightarrow> Inl e | Inr v \<Rightarrow> iter v)"

text \<open>Lines 213 and 214: \<open>', '.join(ats_data[key])\<close>\<close>

definition joined_of :: "json \<Rightarrow> pystr \<Rightarrow> exn + pystr" where
  "joined_of ats_data key =
     (case getitem ats_data key of Inl e \<Rightarrow> Inl e | Inr v \<Rightarrow> join_json (py '', '') v)"

text \<open>Lines 209-218\<close>

definition report_lines :: "pystr \<Rightarrow> pystr \<Rightarrow> pystr \<Rightarrow> pystr list" where
  "report_lines strengths suggestions analysis =
     [py ''RESUME ANALYSIS REPORT'',
      py ''----------------------'',
      py ''ATS COMPLIANCE ANALYSIS:'',
      py ''Strengths: '' @ strengths,
      py ''Suggestions: '' @ suggestions,
      py '''',
      py ''DETAILED ANALYSIS:'',
      analysis]"

definition run_full_analysis ::
  "'img env \<Rightarrow> nat list \<Rightarrow> pystr \<Rightarrow> pystr \<Rightarrow> depth \<Rightarrow> world \<Rightarrow> (exn + outputs) \<times> world" where
  "run_full_analysis env uploaded_file job_desc language analysis_depth =
     bind (extract_text_from_pdf env uploaded_file) (\<lambda>resume_text.
     bind (analyze_resume env resume_text (Some job_desc) language) (\<lambda>analysis.
     bind (check_ats_compliance env resume_text) (\<lambda>ats_data.
     bind (pure (items_of ats_data (py ''strengths''))) (\<lambda>shown1.
     bind (pure (items_of ats_data (py ''suggestions''))) (\<lambda>shown2.
     bind (pure (joined_of ats_data (py ''strengths''))) (\<lambda>strengths.
     bind (pure (joined_of ats_data (py ''suggestions''))) (\<lambda>suggestions.
     bind (pure (Inr (join nl (report_lines strengths suggestions analysis)))) (\<lambda>report_content.
     bind (generate_pdf_report env report_content (py ''report.pdf'')) (\<lambda>pdf_path.
     bind (generate_word_report env report_content (py ''report.docx'')) (\<lambda>docx_path.
     pure (Inr \<lparr>resume_text_of = resume_text,
                 analysis_of = analysis,
                 ats_data_of = ats_data,
                 strengths_shown = shown1,
                 suggestions_shown = shown2,
                 report_content_of = report_content,
                 pdf_path_of = pdf_path,
                 docx_path_of = docx_path\<rparr>)))))))))))"

section \<open>Sample surroundings\<close>

text \<open>
  A world with no files, and surroundings in which every call succeeds: a one-page PDF
  with a text layer, English text, a model that answers \<open>{}\<close>.  Images are numbered.
\<close>

definition world0 :: world where
  "world0 = \<lparr>fs = Map.empty, open_files = [], notices = [], prompts = [], ocr_calls = 0\<rparr>"

definition sample_text :: pystr where
  "sample_text = py ''Python Developer with 5 years experience''"

definition sample_env :: "nat env" where
  "sample_env =
     \<lparr>temp_disk = Disk_ok,
      pdfplumber_open = (\<lambda>f. Inr [Inr (Some sample_text)]),
      convert_from_path = (\<lambda>f. Inr [0]),
      image_to_string = (\<lambda>i. Inr (py ''scan'')),
      detect = (\<lambda>t. Inr (py ''en'')),
      translate = (\<lambda>t src dest. Inr t),
      generate_content = (\<lambda>p. Inr (py ''{}'')),
      json_loads = (\<lambda>t. if t = py ''{}'' then Inr (JObj [])
                         else Inl (Exception (py ''JSONDecodeError''))),
      fpdf_new_page = None,
      fpdf_add_font = (\<lambda>name. None),
      fpdf_set_font = (\<lambda>name. None),
      fpdf_multi_cell = (\<lambda>font text. None),
      fpdf_output = (\<lambda>filename. None),
      docx_new = None,
      docx_add_paragraph = (\<lambda>line. None),
      docx_save = (\<lambda>filename. None)\<rparr>"

text \<open>Detection raises, as it does on an empty text.\<close>

definition undetectable_env :: "nat env" where
  "undetectable_env =
     sample_env\<lparr>detect := (\<lambda>t. Inl (Exception (py ''LangDetectException'')))\<rparr>"

text \<open>The text is detected as French and translated.\<close>

definition french_env :: "nat env" where
  "french_env =
     sample_env\<lparr>detect := (\<lambda>t. Inr (py ''fr'')),
                 translate := (\<lambda>t src dest. Inr (py ''Hello''))\<rparr>"

text \<open>The text is detected as French and the translation is interrupted.\<close>

definition interrupted_env :: "nat env" where
  "interrupted_env =
     sample_env\<lparr>detect := (\<lambda>t. Inr (py ''fr'')),
                 translate := (\<lambda>t src dest. Inl (BaseException (py ''KeyboardInterrupt'')))\<rparr>"

text \<open>The model answers with a record of the shape the prompt asks for.\<close>

definition reply_record :: json where
  "reply_record =
     JObj [(py ''strengths'', JArr [JStr (py ''Clear headings'')]),
           (py ''weaknesses'', JArr []),
           (py ''suggestions'', JArr [JStr (py ''Add keywords'')])]"

definition helpful_env :: "nat env" where
  "helpful_env = sample_env\<lparr>json_loads := (\<lambda>t. Inr reply_record)\<rparr>"

text \<open>
  A one-page PDF with the text \<open>Bonjour\<close>, detected as French; the translator gives
  \<open>Hello\<close> for the target \<open>en\<close> and \<open>Hallo\<close> for any other target.
\<close>

definition bilingual_env :: "nat env" where
  "bilingual_env =
     helpful_env\<lparr>pdfplumber_open := (\<lambda>f. Inr [Inr (Some (py ''Bonjour''))]),
                  detect := (\<lambda>t. Inr (py ''fr'')),
                  translate :=
                    (\<lambda>t src dest. if dest = py ''en'' then Inr (py ''Hello'')
                                   else Inr (py ''Hallo''))\<rparr>"

text \<open>An uploaded file: the four bytes \<open>%PDF\<close>.\<close>

definition pdf_bytes :: "nat list" where
  "pdf_bytes = [37, 80, 68, 70]"

text \<open>The font file \<open>c:/windows/fonts/arial.ttf\<close> is not there.\<close>

definition no_arial_env :: "nat env" where
  "no_arial_env =
     sample_env\<lparr>fpdf_add_font := (\<lambda>name. Some (Exception (py ''FileNotFoundError'')))\<rparr>"

text \<open>
  The font file is not there, and the base font encodes Latin-1 only: laying out a
  character beyond U+00FF in it raises.
\<close>

definition latin1_env :: "nat env" where
  "latin1_env =
     no_arial_env\<lparr>fpdf_multi_cell :=
       (\<lambda>font content.
          if font = helvetica \<and> list_ex (\<lambda>c. 255 < c) content
          then Some (Exception (py ''UnicodeEncodeError''))
          else None)\<rparr>"

text \<open>\<open>done\<close> followed by a check mark (U+2713)\<close>

definition done_check :: pystr where
  "done_check = py ''done '' @ [10003]"

text \<open>\<open>don't\<close> with a curly apostrophe\<close>

definition dont_curly :: pystr where
  "dont_curly = py ''don'' @ [8217] @ py ''t''"

text \<open>A PDF of two pages, the first without a text layer.\<close>

definition two_page_env :: "nat env" where
  "two_page_env =
     sample_env\<lparr>pdfplumber_open := (\<lambda>f. Inr [Inr None, Inr (Some (sample_text @ nl))])\<rparr>"

text \<open>
  A scanned PDF of two pages: no text layer, and OCR output that starts with a space on
  the first page.  Any other file has the single page image 7, read as \<open>Old scan\<close>.
\<close>

definition scanned_env :: "nat env" where
  "scanned_env =
     sample_env\<lparr>pdfplumber_open := (\<lambda>f. Inr [Inr None, Inr None]),
                 convert_from_path :=
                   (\<lambda>f. if f = Some (Bytes pdf_bytes) then Inr [0, 1]
                        else if f = None then Inl (Exception (py ''PDFPageCountError''))
                        else Inr [7]),
                 image_to_string :=
                   (\<lambda>i. Inr (if i = 0 then 32 # py ''Page one''
                             else if i = 7 then py ''Old scan''
                             else py ''Page two''))\<rparr>"


text \<open>The working directory still holds the \<open>temp.pdf\<close> of an earlier upload.\<close>

definition stale_world :: world where
  "stale_world = world0\<lparr>fs := (fs world0)(temp_pdf \<mapsto> Bytes [1, 2, 3])\<rparr>"

text \<open>The working directory is not writable: \<open>open("temp.pdf", "wb")\<close> raises.\<close>

definition readonly_env :: "nat env" where
  "readonly_env = scanned_env\<lparr>temp_disk := Open_raises (Exception (py ''PermissionError''))\<rparr>"

text \<open>The same scan behind a cover page with a text layer; reading the second page raises.\<close>

definition torn_env :: "nat env" where
  "torn_env =
     scanned_env\<lparr>pdfplumber_open :=
       (\<lambda>f. Inr [Inr (Some (py ''Cover'')), Inl (Exception (py ''PDFSyntaxError''))])\<rparr>"

text \<open>Neither \<open>pdfplumber\<close> nor \<open>pdf2image\<close> can read the file.\<close>

definition broken_env :: "nat env" where
  "broken_env =
     sample_env\<lparr>pdfplumber_open := (\<lambda>f. Inl (Exception (py ''PDFSyntaxError''))),
                 convert_from_path := (\<lambda>f. Inl (Exception (py ''PDFPageCountError'')))\<rparr>"

section \<open>Notions used in the properties\<close>

text \<open>
  A record with exactly the three list-valued fields \<open>strengths\<close>, \<open>weaknesses\<close>
  and \<open>suggestions\<close>.
\<close>

fun is_JArr :: "json \<Rightarrow> bool" where
  "is_JArr (JArr xs) = True"
| "is_JArr v = False"

fun is_compliance_record :: "json \<Rightarrow> bool" where
  "is_compliance_record (JObj kvs) =
     (distinct (map fst kvs)
      \<and> set (map fst kvs) = {py ''strengths'', py ''weaknesses'', py ''suggestions''}
      \<and> list_all (\<lambda>kv. is_JArr (snd kv)) kvs)"
| "is_compliance_record v = False"

text \<open>The line the outbound analysis prompt has to contain.\<close>

definition skills_line :: pystr where
  "skills_line = py ''1. Skills Summary (Technical & Soft Skills)''"

text \<open>
  Two worlds that differ at most in the log of prompts, and a computation whose value
  and whose effect on the rest of the world do not depend on that log.
\<close>

definition same_outside_prompts :: "world \<Rightarrow> world \<Rightarrow> bool" where
  "same_outside_prompts w w' \<longleftrightarrow>
     fs w = fs w' \<and> open_files w = open_files w' \<and> notices w = notices w'
     \<and> ocr_calls w = ocr_calls w'"

definition blind_to_prompts :: "(world \<Rightarrow> (exn + 'a) \<times> world) \<Rightarrow> bool" where
  "blind_to_prompts m \<longleftrightarrow>
     (\<forall>w w'. same_outside_prompts w w' \<longrightarrow>
        fst (m w) = fst (m w') \<and> same_outside_prompts (snd (m w)) (snd (m w')))"

text \<open>The first exception that a sequence of calls raises, if any of them does.\<close>

fun first_raise :: "exn option list \<Rightarrow> exn option" where
  "first_raise [] = None"
| "first_raise (None # calls) = first_raise calls"
| "first_raise (Some e # calls) = Some e"

text \<open>
  The ASCII equivalent of one character: a hyphen for the en and the em dash, a straight
  quote for a curly one, three dots for the ellipsis, and the character itself otherwise.
\<close>

definition ascii_equivalent :: "nat \<Rightarrow> pystr" where
  "ascii_equivalent c =
     (if c = 8211 \<or> c = 8212 then py ''-''
      else if c = 8216 \<or> c = 8217 then [39]
      else if c = 8220 \<or> c = 8221 then dq
      else if c = 8230 then py ''...''
      else [c])"

text \<open>What a page contributes to the structured text: nothing when it has no text layer.\<close>

definition text_layer :: "pystr option \<Rightarrow> pystr" where
  "text_layer page_text = (case page_text of None \<Rightarrow> [] | Some t \<Rightarrow> t)"

section \<open>Properties\<close>

lemma join_snoc: "xs \<noteq> [] \<Longrightarrow> join sep (xs @ [x]) = join sep xs @ sep @ x"
  by (induction sep xs rule: join.induct) auto

subsection \<open>The compliance prompt\<close>

lemma check_ats_prompt_eq:
  "check_ats_prompt resume_text =
     join nl ats_header @ nl @ py ''Resume: '' @ take 2000 resume_text"
  unfolding check_ats_prompt_def by (subst join_snoc) (simp_all add: ats_header_def)

lemma check_ats_compliance_prompts:
  "prompts (snd (check_ats_compliance env resume_text w)) =
     prompts w @ [check_ats_prompt resume_text]"
  by (simp add: check_ats_compliance_def send_def split: sum.splits)

text \<open>
  C7.  The prompt that \<open>check_ats_compliance\<close> sends is the fixed header followed by
  \<open>Resume: \<close> and the first 2000 characters of the resume text: at most 2000
  characters of it, all of it when it has no more than 2000, and nothing of what comes
  after the first 2000.
\<close>

theorem ats_prompt_first_2000:
  "prompts (snd (check_ats_compliance env resume_text w)) =
     prompts w @ [join nl ats_header @ nl @ py ''Resume: '' @ take 2000 resume_text]
   \<and> length (take 2000 resume_text) \<le> 2000
   \<and> (length resume_text \<le> 2000 \<longrightarrow> take 2000 resume_text = resume_text)
   \<and> check_ats_prompt resume_text = check_ats_prompt (take 2000 resume_text)"
  by (simp add: check_ats_compliance_prompts check_ats_prompt_eq)

theorem ats_prompt_first_2000_witness:
  "length sample_text \<le> 2000
   \<and> prompts (snd (check_ats_compliance sample_env sample_text world0)) =
       [join nl ats_header @ nl @ py ''Resume: '' @ sample_text]"
  using ats_prompt_first_2000 [of sample_env sample_text world0]
  by (simp add: sample_text_def py_def world0_def)

subsection \<open>Language support\<close>

text \<open>
  C5.  \<open>detect_and_translate\<close> returns a string for every text and target language and
  never raises; when detection raises, when translation raises, and when the detected
  language is the target, the result is the text it was given.
\<close>

theorem detect_and_translate_never_raises:
  "(\<exists>s. detect_and_translate env text target_lang = Inr s)
   \<and> ((\<exists>e. detect env text = Inl e) \<longrightarrow> detect_and_translate env text target_lang = Inr text)
   \<and> ((\<exists>src e. detect env text = Inr src \<and> translate env text src target_lang = Inl e)
        \<longrightarrow> detect_and_translate env text target_lang = Inr text)
   \<and> (detect env text = Inr target_lang
        \<longrightarrow> detect_and_translate env text target_lang = Inr text)"
  by (auto simp: detect_and_translate_def split: sum.splits)

theorem detect_and_translate_never_raises_witness:
  "detect undetectable_env [] = Inl (Exception (py ''LangDetectException''))
   \<and> detect_and_translate undetectable_env [] (py ''en'') = Inr []
   \<and> detect interrupted_env (py ''Bonjour'') = Inr (py ''fr'')
   \<and> translate interrupted_env (py ''Bonjour'') (py ''fr'') (py ''en'') =
       Inl (BaseException (py ''KeyboardInterrupt''))
   \<and> detect_and_translate interrupted_env (py ''Bonjour'') (py ''en'') = Inr (py ''Bonjour'')
   \<and> detect sample_env sample_text = Inr (py ''en'')
   \<and> detect_and_translate sample_env sample_text (py ''en'') = Inr sample_text"
  using detect_and_translate_never_raises [of undetectable_env "[]" "py ''en''"]
    detect_and_translate_never_raises [of interrupted_env "py ''Bonjour''" "py ''en''"]
    detect_and_translate_never_raises [of sample_env sample_text "py ''en''"]
  by (simp add: undetectable_env_def interrupted_env_def sample_env_def)

subsection \<open>The compliance result\<close>

text \<open>
  Whenever the request or the parse raises, the result is the record of three empty
  lists, and the function itself never raises.
\<close>

lemma empty_result_is_record: "is_compliance_record empty_result"
  by (simp add: empty_result_def py_def)

lemma check_ats_compliance_fallback:
  "(\<exists>v. fst (check_ats_compliance env resume_text w) = Inr v)
   \<and> ((\<exists>e. generate_content env (check_ats_prompt resume_text) = Inl e)
        \<longrightarrow> fst (check_ats_compliance env resume_text w) = Inr empty_result)
   \<and> ((\<exists>t e. generate_content env (check_ats_prompt resume_text) = Inr t
               \<and> json_loads env t = Inl e)
        \<longrightarrow> fst (check_ats_compliance env resume_text w) = Inr empty_result)"
  by (auto simp: check_ats_compliance_def send_def split: sum.splits)

text \<open>
  C1.  The model answers \<open>{}\<close>, which is valid JSON: \<open>check_ats_compliance\<close> returns
  the empty dict as it is, which is not a record of the three lists, and the handler then
  raises \<open>KeyError\<close> at \<open>ats_data['strengths']\<close>.
\<close>

theorem ats_reply_returned_unchecked:
  "fst (check_ats_compliance sample_env sample_text world0) = Inr (JObj [])
   \<and> \<not> is_compliance_record (JObj [])
   \<and> fst (run_full_analysis sample_env pdf_bytes [] (py ''en'') Basic world0) =
       Inl (Exception (py ''KeyError''))"
  by (simp add: pdf_bytes_def run_full_analysis_def bind_def pure_def extract_text_from_pdf_def first_try_def
      sample_env_def world0_def analyze_resume_def detect_and_translate_def send_def
      check_ats_compliance_def items_of_def sample_text_def py_def strip_def isspace_def
      open_wb_def put_bytes_def close_file_def)

subsection \<open>Lines and substrings\<close>

lemma split_on_nonempty: "split_on c s \<noteq> []"
  by (induction s) (auto split: list.splits)

lemma split_on_append_sep: "split_on c (a @ c # b) = split_on c a @ split_on c b"
proof (induction a)
  case Nil
  then show ?case by simp
next
  case (Cons x a)
  then show ?case
    using split_on_nonempty [of c a] by (cases "split_on c a") auto
qed

lemma split_on_join:
  "xs \<noteq> [] \<Longrightarrow> split_on c (join [c] xs) = concat (map (split_on c) xs)"
  by (induction "[c]" xs rule: join.induct) (simp_all add: split_on_append_sep)

lemma split_on_no_sep: "c \<notin> set s \<Longrightarrow> split_on c s = [s]"
  by (induction s) auto

lemma line_in_join:
  assumes "l \<in> set xs" and "c \<notin> set l"
  shows "l \<in> set (split_on c (join [c] xs))"
proof -
  from assms(1) have "xs \<noteq> []" by auto
  then have "split_on c (join [c] xs) = concat (map (split_on c) xs)"
    by (rule split_on_join)
  moreover have "l \<in> set (split_on c l)"
    using assms(2) by (simp add: split_on_no_sep)
  ultimately show ?thesis using assms(1) by auto
qed

lemma contains_iff: "contains sub s \<longleftrightarrow> (\<exists>a b. s = a @ sub @ b)"
proof (induction s)
  case Nil
  then show ?case by auto
next
  case (Cons c cs)
  show ?case
  proof
    assume "contains sub (c # cs)"
    then consider "prefix sub (c # cs)" | "contains sub cs" by auto
    then show "\<exists>a b. c # cs = a @ sub @ b"
    proof cases
      case 1
      then obtain b where "c # cs = sub @ b" by (auto simp: prefix_def)
      then have "c # cs = [] @ sub @ b" by simp
      then show ?thesis by blast
    next
      case 2
      with Cons obtain a b where "cs = a @ sub @ b" by auto
      then have "c # cs = (c # a) @ sub @ b" by simp
      then show ?thesis by blast
    qed
  next
    assume "\<exists>a b. c # cs = a @ sub @ b"
    then obtain a b where ab: "c # cs = a @ sub @ b" by blast
    show "contains sub (c # cs)"
    proof (cases a)
      case Nil
      with ab have "prefix sub (c # cs)" by (simp add: prefix_def)
      then show ?thesis by simp
    next
      case (Cons x a')
      with ab have "cs = a' @ sub @ b" by simp
      with Cons.IH show ?thesis by auto
    qed
  qed
qed

lemma join_embeds: "x \<in> set xs \<Longrightarrow> \<exists>a b. join sep xs = a @ x @ b"
proof (induction sep xs rule: join.induct)
  case (1 sep)
  then show ?case by simp
next
  case (2 sep y)
  then have "join sep [y] = [] @ x @ []" by simp
  then show ?case by blast
next
  case (3 sep y z zs)
  show ?case
  proof (cases "x = y")
    case True
    then have "join sep (y # z # zs) = [] @ x @ (sep @ join sep (z # zs))" by simp
    then show ?thesis by blast
  next
    case False
    with 3 obtain a b where "join sep (z # zs) = a @ x @ b" by auto
    then have "join sep (y # z # zs) = (y @ sep @ a) @ x @ b" by simp
    then show ?thesis by blast
  qed
qed

lemma contains_join: "x \<in> set xs \<Longrightarrow> contains x (join sep xs)"
  by (simp add: contains_iff join_embeds)

subsection \<open>The analysis prompt\<close>

lemma analyze_resume_prompts:
  "detect_and_translate env resume_text (py ''en'') = Inr t \<Longrightarrow>
   prompts (snd (analyze_resume env resume_text jd language w)) =
     prompts w @ [join nl (analysis_prompt t jd language)]"
  by (simp add: analyze_resume_def send_def)

lemma analysis_prompt_nth:
  "analysis_prompt t jd language ! 1 = skills_line"
  "analysis_prompt t jd language ! 8 = t"
  "analysis_prompt t jd language ! 5 =
     py ''5. '' @ (if truthy jd then py ''Job Fit Analysis'' else py ''General Career Advice'')"
  by (simp_all add: analysis_prompt_def skills_line_def)

lemma analysis_prompt_drop:
  "drop 9 (analysis_prompt t jd language) =
     (if truthy jd then comparison_section (the jd) else [])"
  by (cases jd) (simp_all add: analysis_prompt_def)

lemma analysis_prompt_members:
  "skills_line \<in> set (analysis_prompt t jd language)"
  "t \<in> set (analysis_prompt t jd language)"
  by (simp_all add: analysis_prompt_def skills_line_def)

lemma skills_line_one_line: "10 \<notin> set skills_line"
  by (simp add: skills_line_def py_def)

text \<open>
  C6, as the code has it.  The prompt that \<open>analyze_resume\<close> sends is the join of
  \<open>analysis_prompt\<close>: it has the line \<open>1. Skills Summary (Technical & Soft Skills)\<close>
  and contains the normalized text \<open>detect_and_translate(resume_text, 'en')\<close>, which is
  the resume text itself when the detected language is \<open>en\<close> or detection raises; its
  sixth line is \<open>5. Job Fit Analysis\<close> for a non-empty job description and
  \<open>5. General Career Advice\<close> otherwise; and after the ninth line comes the comparison
  section, ending in the three fixed sub-prompts, exactly when the job description is
  non-empty.
\<close>

theorem analysis_prompt_contents:
  assumes "detect_and_translate env resume_text (py ''en'') = Inr t"
  shows "prompts (snd (analyze_resume env resume_text jd language w)) =
           prompts w @ [join nl (analysis_prompt t jd language)]
    \<and> skills_line \<in> set (split_on 10 (join nl (analysis_prompt t jd language)))
    \<and> contains t (join nl (analysis_prompt t jd language))
    \<and> (detect env resume_text = Inr (py ''en'') \<or> (\<exists>e. detect env resume_text = Inl e)
         \<longrightarrow> t = resume_text)
    \<and> analysis_prompt t jd language ! 5 =
         py ''5. '' @ (if truthy jd then py ''Job Fit Analysis'' else py ''General Career Advice'')
    \<and> length (take 9 (analysis_prompt t jd language)) = 9
    \<and> drop 9 (analysis_prompt t jd language) =
         (if truthy jd then comparison_section (the jd) else [])
    \<and> drop 4 (comparison_section job) =
         [py ''Compare and highlight:'', py ''- Matching qualifications'',
          py ''- Missing requirements'', py ''- Suggested adaptations'']"
proof -
  have "skills_line \<in> set (split_on 10 (join nl (analysis_prompt t jd language)))"
    unfolding nl_def by (rule line_in_join [OF analysis_prompt_members(1) skills_line_one_line])
  moreover have "detect env resume_text = Inr (py ''en'') \<or> (\<exists>e. detect env resume_text = Inl e)
         \<longrightarrow> t = resume_text"
    using assms by (auto simp: detect_and_translate_def)
  moreover have "length (take 9 (analysis_prompt t jd language)) = 9"
    by (simp add: analysis_prompt_def)
  moreover have "drop 4 (comparison_section job) =
         [py ''Compare and highlight:'', py ''- Matching qualifications'',
          py ''- Missing requirements'', py ''- Suggested adaptations'']"
    by (simp add: comparison_section_def)
  ultimately show ?thesis
    using analyze_resume_prompts [OF assms] analysis_prompt_nth(3) analysis_prompt_drop
      contains_join [OF analysis_prompt_members(2)]
    by simp
qed

theorem analysis_prompt_contents_witness:
  "detect_and_translate french_env (py ''Bonjour'') (py ''en'') = Inr (py ''Hello'')
   \<and> prompts (snd (analyze_resume french_env (py ''Bonjour'') (Some (py ''Greeter'')) (py ''fr'') world0)) =
        [join nl (analysis_prompt (py ''Hello'') (Some (py ''Greeter'')) (py ''fr''))]
   \<and> contains (py ''Hello'') (join nl (analysis_prompt (py ''Hello'') (Some (py ''Greeter'')) (py ''fr'')))
   \<and> truthy (Some (py ''Greeter''))
   \<and> analysis_prompt (py ''Hello'') (Some (py ''Greeter'')) (py ''fr'') ! 5 = py ''5. Job Fit Analysis''
   \<and> drop 9 (analysis_prompt (py ''Hello'') (Some (py ''Greeter'')) (py ''fr'')) = comparison_section (py ''Greeter'')
   \<and> detect sample_env sample_text = Inr (py ''en'')
   \<and> detect_and_translate sample_env sample_text (py ''en'') = Inr sample_text
   \<and> \<not> truthy (Some [])
   \<and> analysis_prompt sample_text (Some []) (py ''en'') ! 5 = py ''5. General Career Advice''
   \<and> drop 9 (analysis_prompt sample_text (Some []) (py ''en'')) = []"
proof -
  have a: "detect_and_translate french_env (py ''Bonjour'') (py ''en'') = Inr (py ''Hello'')"
    by (simp add: detect_and_translate_def french_env_def sample_env_def py_def)
  have b: "detect_and_translate sample_env sample_text (py ''en'') = Inr sample_text"
    by (simp add: detect_and_translate_def sample_env_def)
  have c: "truthy (Some (py ''Greeter''))" "\<not> truthy (Some [])" "detect sample_env sample_text = Inr (py ''en'')"
    by (simp_all add: py_def sample_env_def)
  show ?thesis
    using analysis_prompt_contents [OF a, of "Some (py ''Greeter'')" "py ''fr''" world0]
      analysis_prompt_contents [OF b, of "Some []" "py ''en''" world0] a b c
    by (simp add: world0_def py_def)
qed

text \<open>
  The resume \<open>Bonjour\<close> is detected as French and translated to \<open>Hello\<close>: the
  prompt does not contain the resume text.
\<close>

theorem literal_resume_text_counterexample:
  "\<not> contains (py ''Bonjour'')
       (last (prompts (snd (analyze_resume french_env (py ''Bonjour'') None (py ''fr'') world0))))"
  by (simp add: analyze_resume_def detect_and_translate_def french_env_def sample_env_def
      send_def world0_def analysis_prompt_def py_def nl_def)

subsection \<open>The handler: which text goes into which prompt\<close>

lemma bind_keeps_prompts:
  assumes "\<And>w. prompts (snd (m w)) = prompts w"
    and "\<And>v w. prompts (snd (f v w)) = prompts w"
  shows "prompts (snd (bind m f w)) = prompts w"
proof (cases "m w")
  case (Pair r w1)
  with assms(1) [of w] have "prompts w1 = prompts w" by simp
  with Pair assms(2) show ?thesis by (cases r) (simp_all add: bind_def)
qed

lemma pure_keeps_prompts: "prompts (snd (pure r w)) = prompts w"
  by (simp add: pure_def)

lemma generate_pdf_report_keeps_prompts:
  "prompts (snd (generate_pdf_report env content filename w)) = prompts w"
  by (simp add: generate_pdf_report_def err_def split: sum.splits)

lemma generate_word_report_keeps_prompts:
  "prompts (snd (generate_word_report env content filename w)) = prompts w"
  by (simp add: generate_word_report_def err_def split: sum.splits)

lemma analyze_resume_eq:
  "detect_and_translate env resume_text (py ''en'') = Inr t \<Longrightarrow>
   analyze_resume env resume_text jd language w =
     (generate_content env (join nl (analysis_prompt t jd language)),
      w\<lparr>prompts := prompts w @ [join nl (analysis_prompt t jd language)]\<rparr>)"
  by (simp add: analyze_resume_def send_def)

lemma check_ats_compliance_world:
  "snd (check_ats_compliance env resume_text w) =
     w\<lparr>prompts := prompts w @ [check_ats_prompt resume_text]\<rparr>"
  by (simp add: check_ats_compliance_def send_def split: sum.splits)

lemma check_ats_compliance_value:
  "fst (check_ats_compliance env resume_text w) = fst (check_ats_compliance env resume_text w')"
  by (simp add: check_ats_compliance_def send_def split: sum.splits)

lemma analysis_prompt_framing:
  "hd (analysis_prompt t jd language) =
     py ''Analyze this resume (originally in '' @ language @ py '') and provide:''"
  "tl (analysis_prompt t jd language) = tl (analysis_prompt t jd language')"
  by (simp_all add: analysis_prompt_def)

lemma run_full_analysis_prompts:
  assumes "extract_text_from_pdf env uploaded_file w = (Inr resume_text, w1)"
    and "detect_and_translate env resume_text (py ''en'') = Inr t"
    and "generate_content env (join nl (analysis_prompt t (Some job_desc) language)) = Inr analysis"
  shows "prompts (snd (run_full_analysis env uploaded_file job_desc language analysis_depth w)) =
           prompts w1 @ [join nl (analysis_prompt t (Some job_desc) language),
                         check_ats_prompt resume_text]"
proof -
  let ?w2 = "w1\<lparr>prompts := prompts w1 @ [join nl (analysis_prompt t (Some job_desc) language)]\<rparr>"
  obtain v w3 where c: "check_ats_compliance env resume_text ?w2 = (Inr v, w3)"
    using check_ats_compliance_fallback by (metis prod.collapse)
  have w3: "prompts w3 = prompts w1 @ [join nl (analysis_prompt t (Some job_desc) language),
      check_ats_prompt resume_text]"
    using check_ats_compliance_world [of env resume_text ?w2] c by simp
  have "prompts (snd (run_full_analysis env uploaded_file job_desc language analysis_depth w)) =
      prompts w3"
    unfolding run_full_analysis_def
    apply (subst bind_def, simp add: assms(1))
    apply (subst bind_def, simp add: analyze_resume_eq [OF assms(2)] assms(3))
    apply (subst bind_def, simp add: c)
    apply (intro bind_keeps_prompts pure_keeps_prompts generate_pdf_report_keeps_prompts
        generate_word_report_keeps_prompts)
    done
  then show ?thesis using w3 by simp
qed

lemma run_full_analysis_aborted:
  assumes "extract_text_from_pdf env uploaded_file w = (Inr resume_text, w1)"
    and "detect_and_translate env resume_text (py ''en'') = Inr t"
    and "generate_content env (join nl (analysis_prompt t (Some job_desc) language)) = Inl e"
  shows "run_full_analysis env uploaded_file job_desc language analysis_depth w =
           (Inl e, w1\<lparr>prompts := prompts w1 @ [join nl (analysis_prompt t (Some job_desc) language)]\<rparr>)"
  unfolding run_full_analysis_def
  apply (subst bind_def, simp add: assms(1))
  apply (subst bind_def, simp add: analyze_resume_eq [OF assms(2)] assms(3))
  done

text \<open>
  C10.  In a run whose extraction returns \<open>resume_text\<close> and whose analysis request
  is answered, two prompts are sent: first the analysis prompt, whose ninth line is the
  normalized text \<open>detect_and_translate(resume_text, 'en')\<close> (the target is \<open>en\<close>
  whatever the language argument is, which appears in the first line only), then the
  compliance prompt, built from the extracted text as it is.
\<close>

theorem analysis_gets_normalized_ats_gets_raw:
  assumes "extract_text_from_pdf env uploaded_file w = (Inr resume_text, w1)"
    and "detect_and_translate env resume_text (py ''en'') = Inr t"
    and "generate_content env (join nl (analysis_prompt t (Some job_desc) language)) = Inr analysis"
  shows "prompts (snd (run_full_analysis env uploaded_file job_desc language analysis_depth w)) =
           prompts w1 @ [join nl (analysis_prompt t (Some job_desc) language),
                         join nl ats_header @ nl @ py ''Resume: '' @ take 2000 resume_text]
    \<and> analysis_prompt t (Some job_desc) language ! 8 = t
    \<and> hd (analysis_prompt t (Some job_desc) language) =
         py ''Analyze this resume (originally in '' @ language @ py '') and provide:''
    \<and> tl (analysis_prompt t (Some job_desc) language) =
         tl (analysis_prompt t (Some job_desc) language')"
  using run_full_analysis_prompts [OF assms] analysis_prompt_nth(2) analysis_prompt_framing
  by (simp add: check_ats_prompt_eq)

lemma sample_extract:
  "extract_text_from_pdf helpful_env pdf_bytes world0 =
     (Inr sample_text, world0\<lparr>fs := (fs world0)(temp_pdf \<mapsto> Bytes pdf_bytes)\<rparr>)"
  by (simp add: extract_text_from_pdf_def first_try_def helpful_env_def sample_env_def
      sample_text_def py_def strip_def isspace_def open_wb_def put_bytes_def close_file_def
      world0_def)

lemma sample_normalize:
  "detect_and_translate helpful_env sample_text (py ''en'') = Inr sample_text"
  by (simp add: detect_and_translate_def helpful_env_def sample_env_def)

lemma bilingual_extract:
  "extract_text_from_pdf bilingual_env pdf_bytes world0 =
     (Inr (py ''Bonjour''), world0\<lparr>fs := (fs world0)(temp_pdf \<mapsto> Bytes pdf_bytes)\<rparr>)"
  by (simp add: extract_text_from_pdf_def first_try_def bilingual_env_def helpful_env_def
      sample_env_def py_def strip_def isspace_def open_wb_def put_bytes_def close_file_def
      world0_def)

lemma bilingual_normalize:
  "detect_and_translate bilingual_env (py ''Bonjour'') (py ''en'') = Inr (py ''Hello'')"
  by (simp add: detect_and_translate_def bilingual_env_def helpful_env_def sample_env_def py_def)

theorem analysis_gets_normalized_ats_gets_raw_witness:
  "extract_text_from_pdf bilingual_env pdf_bytes world0 =
     (Inr (py ''Bonjour''), world0\<lparr>fs := (fs world0)(temp_pdf \<mapsto> Bytes pdf_bytes)\<rparr>)
   \<and> detect_and_translate bilingual_env (py ''Bonjour'') (py ''en'') = Inr (py ''Hello'')
   \<and> detect_and_translate bilingual_env (py ''Bonjour'') (py ''de'') = Inr (py ''Hallo'')
   \<and> generate_content bilingual_env
         (join nl (analysis_prompt (py ''Hello'') (Some []) (py ''de''))) = Inr (py ''{}'')
   \<and> prompts (snd (run_full_analysis bilingual_env pdf_bytes [] (py ''de'') Detailed world0)) =
       [join nl (analysis_prompt (py ''Hello'') (Some []) (py ''de'')),
        join nl ats_header @ nl @ py ''Resume: '' @ py ''Bonjour'']
   \<and> analysis_prompt (py ''Hello'') (Some []) (py ''de'') ! 8 = py ''Hello''
   \<and> hd (analysis_prompt (py ''Hello'') (Some []) (py ''de'')) =
       py ''Analyze this resume (originally in de) and provide:''
   \<and> py ''Hello'' \<noteq> py ''Bonjour''
   \<and> py ''Hello'' \<noteq> py ''Hallo''"
proof -
  have g: "generate_content bilingual_env
      (join nl (analysis_prompt (py ''Hello'') (Some []) (py ''de''))) = Inr (py ''{}'')"
    by (simp add: bilingual_env_def helpful_env_def sample_env_def)
  have d: "detect_and_translate bilingual_env (py ''Bonjour'') (py ''de'') = Inr (py ''Hallo'')"
    by (simp add: detect_and_translate_def bilingual_env_def helpful_env_def sample_env_def
        py_def)
  have l: "length (py ''Bonjour'') \<le> 2000"
    by (simp add: py_def)
  have f: "py ''Analyze this resume (originally in '' @ py ''de'' @ py '') and provide:'' =
      py ''Analyze this resume (originally in de) and provide:''"
    "py ''Hello'' \<noteq> py ''Bonjour''" "py ''Hello'' \<noteq> py ''Hallo''"
    by (simp_all add: py_def)
  show ?thesis
    using analysis_gets_normalized_ats_gets_raw
      [OF bilingual_extract bilingual_normalize g, of Detailed]
      bilingual_extract bilingual_normalize g d l f
    by (simp add: world0_def)
qed

subsection \<open>The two sidebar settings\<close>

lemma blind_bind:
  assumes "blind_to_prompts m" and "\<And>v. blind_to_prompts (f v)"
  shows "blind_to_prompts (bind m f)"
  unfolding blind_to_prompts_def
proof (intro allI impI)
  fix w w'
  assume s: "same_outside_prompts w w'"
  obtain r w1 where m1: "m w = (r, w1)" by (cases "m w")
  obtain r' w1' where m2: "m w' = (r', w1')" by (cases "m w'")
  from assms(1) s have "fst (m w) = fst (m w') \<and> same_outside_prompts (snd (m w)) (snd (m w'))"
    unfolding blind_to_prompts_def by blast
  with m1 m2 have r: "r' = r" and s1: "same_outside_prompts w1 w1'"
    by simp_all
  show "fst (bind m f w) = fst (bind m f w') \<and>
        same_outside_prompts (snd (bind m f w)) (snd (bind m f w'))"
  proof (cases r)
    case (Inl e)
    with m1 m2 r s1 show ?thesis by (simp add: bind_def)
  next
    case (Inr v)
    with m1 m2 r s1 assms(2) [of v] show ?thesis
      by (simp add: bind_def blind_to_prompts_def)
  qed
qed

lemma blind_pure: "blind_to_prompts (pure r)"
  by (simp add: blind_to_prompts_def pure_def)

lemma blind_check_ats_compliance: "blind_to_prompts (check_ats_compliance env resume_text)"
  by (auto simp: blind_to_prompts_def same_outside_prompts_def check_ats_compliance_def send_def
      split: sum.splits)

lemma blind_generate_pdf_report: "blind_to_prompts (generate_pdf_report env content filename)"
  by (auto simp: blind_to_prompts_def same_outside_prompts_def generate_pdf_report_def err_def
      split: sum.splits)

lemma blind_generate_word_report: "blind_to_prompts (generate_word_report env content filename)"
  by (auto simp: blind_to_prompts_def same_outside_prompts_def generate_word_report_def err_def
      split: sum.splits)

lemmas blind_intros = blind_bind blind_pure blind_check_ats_compliance
  blind_generate_pdf_report blind_generate_word_report

lemma language_reaches_only_the_framing_line:
  assumes "extract_text_from_pdf env uploaded_file w = (Inr resume_text, w1)"
    and "detect_and_translate env resume_text (py ''en'') = Inr t"
    and "generate_content env (join nl (analysis_prompt t (Some job_desc) language)) =
         generate_content env (join nl (analysis_prompt t (Some job_desc) language'))"
  shows "fst (run_full_analysis env uploaded_file job_desc language depth w) =
        fst (run_full_analysis env uploaded_file job_desc language' depth' w)
    \<and> fs (snd (run_full_analysis env uploaded_file job_desc language depth w)) =
        fs (snd (run_full_analysis env uploaded_file job_desc language' depth' w))
    \<and> notices (snd (run_full_analysis env uploaded_file job_desc language depth w)) =
        notices (snd (run_full_analysis env uploaded_file job_desc language' depth' w))"
proof -
  define rest where "rest = (\<lambda>analysis.
     bind (check_ats_compliance env resume_text) (\<lambda>ats_data.
     bind (pure (items_of ats_data (py ''strengths''))) (\<lambda>shown1.
     bind (pure (items_of ats_data (py ''suggestions''))) (\<lambda>shown2.
     bind (pure (joined_of ats_data (py ''strengths''))) (\<lambda>strengths.
     bind (pure (joined_of ats_data (py ''suggestions''))) (\<lambda>suggestions.
     bind (pure (Inr (join nl (report_lines strengths suggestions analysis)))) (\<lambda>report_content.
     bind (generate_pdf_report env report_content (py ''report.pdf'')) (\<lambda>pdf_path.
     bind (generate_word_report env report_content (py ''report.docx'')) (\<lambda>docx_path.
     pure (Inr \<lparr>resume_text_of = resume_text,
                 analysis_of = analysis,
                 ats_data_of = ats_data,
                 strengths_shown = shown1,
                 suggestions_shown = shown2,
                 report_content_of = report_content,
                 pdf_path_of = pdf_path,
                 docx_path_of = docx_path\<rparr>))))))))))"
  have blind: "blind_to_prompts (rest analysis)" for analysis
    unfolding rest_def by (intro blind_intros)
  have run: "run_full_analysis env uploaded_file job_desc l d w =
      bind (analyze_resume env resume_text (Some job_desc) l) rest w1" for l d
    unfolding run_full_analysis_def rest_def
    by (subst bind_def) (simp add: assms(1))
  let ?p = "\<lambda>l. join nl (analysis_prompt t (Some job_desc) l)"
  let ?w = "\<lambda>l. w1\<lparr>prompts := prompts w1 @ [?p l]\<rparr>"
  have same: "same_outside_prompts (?w language) (?w language')"
    by (simp add: same_outside_prompts_def)
  have pair: "fst (bind (analyze_resume env resume_text (Some job_desc) language) rest w1) =
          fst (bind (analyze_resume env resume_text (Some job_desc) language') rest w1)
      \<and> same_outside_prompts
           (snd (bind (analyze_resume env resume_text (Some job_desc) language) rest w1))
           (snd (bind (analyze_resume env resume_text (Some job_desc) language') rest w1))"
  proof (cases "generate_content env (?p language)")
    case (Inl e)
    with assms(3) have "generate_content env (?p language') = Inl e" by simp
    with Inl same show ?thesis
      by (simp add: bind_def analyze_resume_eq [OF assms(2)])
  next
    case (Inr analysis)
    with assms(3) have "generate_content env (?p language') = Inr analysis" by simp
    moreover from same blind [of analysis]
    have "fst (rest analysis (?w language)) = fst (rest analysis (?w language'))
        \<and> same_outside_prompts (snd (rest analysis (?w language)))
             (snd (rest analysis (?w language')))"
      unfolding blind_to_prompts_def by blast
    ultimately show ?thesis
      using Inr by (simp add: bind_def analyze_resume_eq [OF assms(2)])
  qed
  from pair show ?thesis
    by (simp add: run same_outside_prompts_def)
qed

lemma depth_unused:
  "run_full_analysis env uploaded_file job_desc language depth w =
     run_full_analysis env uploaded_file job_desc language depth' w"
  by (simp add: run_full_analysis_def)

lemma language_prompts:
  assumes "extract_text_from_pdf env uploaded_file w = (Inr resume_text, w1)"
    and "detect_and_translate env resume_text (py ''en'') = Inr t"
    and "generate_content env (join nl (analysis_prompt t (Some job_desc) language)) =
         generate_content env (join nl (analysis_prompt t (Some job_desc) language'))"
  shows "\<exists>later.
      prompts (snd (run_full_analysis env uploaded_file job_desc language depth w)) =
        prompts w1 @ join nl (analysis_prompt t (Some job_desc) language) # later
    \<and> prompts (snd (run_full_analysis env uploaded_file job_desc language' depth' w)) =
        prompts w1 @ join nl (analysis_prompt t (Some job_desc) language') # later"
proof (cases "generate_content env (join nl (analysis_prompt t (Some job_desc) language))")
  case (Inl e)
  with assms(3)
  have "generate_content env (join nl (analysis_prompt t (Some job_desc) language')) = Inl e"
    by simp
  from run_full_analysis_aborted [OF assms(1,2) Inl] run_full_analysis_aborted [OF assms(1,2) this]
  show ?thesis by simp
next
  case (Inr analysis)
  with assms(3)
  have "generate_content env (join nl (analysis_prompt t (Some job_desc) language')) = Inr analysis"
    by simp
  from run_full_analysis_prompts [OF assms(1,2) Inr] run_full_analysis_prompts [OF assms(1,2) this]
  show ?thesis by simp
qed

text \<open>
  C8, as the code has it.  The analysis depth is read nowhere: two runs that differ in it
  are equal.  The language goes into the first line of the analysis prompt and nowhere
  else: the other lines are the same, and when the model answers the two analysis prompts
  alike, two runs on the same file and job description give the same outputs, files and
  notices, and send the same prompts after the analysis prompt.
\<close>

theorem settings_reach_only_the_framing_line:
  "run_full_analysis env uploaded_file job_desc language depth w =
     run_full_analysis env uploaded_file job_desc language depth' w
   \<and> tl (analysis_prompt t (Some job_desc) language) =
       tl (analysis_prompt t (Some job_desc) language')
   \<and> (extract_text_from_pdf env uploaded_file w = (Inr resume_text, w1)
       \<and> detect_and_translate env resume_text (py ''en'') = Inr t
       \<and> generate_content env (join nl (analysis_prompt t (Some job_desc) language)) =
           generate_content env (join nl (analysis_prompt t (Some job_desc) language'))
       \<longrightarrow>
         fst (run_full_analysis env uploaded_file job_desc language depth w) =
           fst (run_full_analysis env uploaded_file job_desc language' depth' w)
       \<and> fs (snd (run_full_analysis env uploaded_file job_desc language depth w)) =
           fs (snd (run_full_analysis env uploaded_file job_desc language' depth' w))
       \<and> notices (snd (run_full_analysis env uploaded_file job_desc language depth w)) =
           notices (snd (run_full_analysis env uploaded_file job_desc language' depth' w))
       \<and> (\<exists>later.
             prompts (snd (run_full_analysis env uploaded_file job_desc language depth w)) =
               prompts w1 @ join nl (analysis_prompt t (Some job_desc) language) # later
           \<and> prompts (snd (run_full_analysis env uploaded_file job_desc language' depth' w)) =
               prompts w1 @ join nl (analysis_prompt t (Some job_desc) language') # later))"
  using depth_unused [of env uploaded_file job_desc language depth w depth']
    analysis_prompt_framing(2) [of t "Some job_desc" language language']
    language_reaches_only_the_framing_line [of env uploaded_file w resume_text w1 t job_desc language language' depth depth']
    language_prompts [of env uploaded_file w resume_text w1 t job_desc language language' depth depth']
  by blast

theorem settings_reach_only_the_framing_line_witness:
  "extract_text_from_pdf helpful_env pdf_bytes world0 =
     (Inr sample_text, world0\<lparr>fs := (fs world0)(temp_pdf \<mapsto> Bytes pdf_bytes)\<rparr>)
   \<and> detect_and_translate helpful_env sample_text (py ''en'') = Inr sample_text
   \<and> generate_content helpful_env (join nl (analysis_prompt sample_text (Some []) (py ''en''))) =
       generate_content helpful_env (join nl (analysis_prompt sample_text (Some []) (py ''es'')))
   \<and> fst (run_full_analysis helpful_env pdf_bytes [] (py ''en'') Basic world0) =
       fst (run_full_analysis helpful_env pdf_bytes [] (py ''es'') Comprehensive world0)
   \<and> fs (snd (run_full_analysis helpful_env pdf_bytes [] (py ''en'') Basic world0)) =
       fs (snd (run_full_analysis helpful_env pdf_bytes [] (py ''es'') Comprehensive world0))"
proof -
  have g: "generate_content helpful_env (join nl (analysis_prompt sample_text (Some []) (py ''en''))) =
       generate_content helpful_env (join nl (analysis_prompt sample_text (Some []) (py ''es'')))"
    by (simp add: helpful_env_def sample_env_def)
  show ?thesis
    using settings_reach_only_the_framing_line [of helpful_env pdf_bytes "[]" "py ''en''" Basic
        world0 Comprehensive sample_text "py ''es''" sample_text
        "world0\<lparr>fs := (fs world0)(temp_pdf \<mapsto> Bytes pdf_bytes)\<rparr>"]
      sample_extract sample_normalize g
    by blast
qed

text \<open>
  Two runs on the same file and job description, one with language \<open>en\<close> and one
  with \<open>es\<close>, send different prompts.
\<close>

theorem language_setting_counterexample:
  "prompts (snd (run_full_analysis helpful_env pdf_bytes [] (py ''en'') Basic world0)) \<noteq>
   prompts (snd (run_full_analysis helpful_env pdf_bytes [] (py ''es'') Basic world0))"
proof -
  have g: "generate_content helpful_env p = Inr (py ''{}'')" for p
    by (simp add: helpful_env_def sample_env_def)
  have "hd (analysis_prompt sample_text (Some []) (py ''en'')) \<noteq>
        hd (analysis_prompt sample_text (Some []) (py ''es''))"
    by (simp add: analysis_prompt_def py_def)
  show ?thesis
    using run_full_analysis_prompts [OF sample_extract sample_normalize g, of "[]" "py ''en''" Basic]
      run_full_analysis_prompts [OF sample_extract sample_normalize g, of "[]" "py ''es''" Basic]
    by (simp add: analysis_prompt_def py_def nl_def)
qed

subsection \<open>The PDF report without the Unicode font\<close>

lemma replace_single:
  "replace [k] v s = concat (map (\<lambda>c. if c = k then v else [c]) s)"
  by (induction s) auto

lemma clean_text_for_pdf_Cons:
  "clean_text_for_pdf (c # cs) = ascii_equivalent c @ clean_text_for_pdf cs"
  by (simp add: clean_text_for_pdf_def replacements_def replace_single ascii_equivalent_def
      py_def dq_def)

lemma clean_text_for_pdf_eq: "clean_text_for_pdf text = concat (map ascii_equivalent text)"
proof (induction "text")
  case Nil
  show ?case by (simp add: clean_text_for_pdf_def replacements_def)
next
  case (Cons c cs)
  then show ?case by (simp add: clean_text_for_pdf_Cons)
qed

text \<open>
  C9, as the code has it.  When loading the Arial font fails (either \<open>add_font\<close> or
  \<open>set_font\<close> raises), what \<open>generate_pdf_report\<close> does is decided by the calls
  \<open>add_page\<close>, \<open>set_font("Helvetica")\<close>, \<open>multi_cell\<close> and \<open>output\<close>, in this
  order.  When none of them raises, it returns the file name and the file written is set
  in Helvetica with the input in which every en dash, em dash, curly quote and ellipsis
  is replaced by its ASCII equivalent; \<open>don't\<close> with a curly apostrophe comes out with
  a straight one.  When one of them raises an \<open>Exception\<close>, no file is written, the
  error is shown and \<open>None\<close> is returned; any other exception leaves the function.
\<close>

theorem pdf_fallback_outcome:
  assumes "fpdf_add_font env arial \<noteq> None \<or> fpdf_set_font env arial \<noteq> None"
  shows "generate_pdf_report env content filename w =
           (case first_raise
                   [fpdf_new_page env,
                    fpdf_set_font env helvetica,
                    fpdf_multi_cell env helvetica (concat (map ascii_equivalent content)),
                    fpdf_output env filename] of
              None \<Rightarrow>
                (Inr (Some filename),
                 w\<lparr>fs := (fs w)(filename \<mapsto>
                      Pdf \<lparr>pdf_font = helvetica,
                           pdf_text = concat (map ascii_equivalent content)\<rparr>)\<rparr>)
            | Some e \<Rightarrow>
                if is_Exception e
                then (Inr None, err (py ''PDF generation failed: '' @ exn_str e) w)
                else (Inl e, w))"
proof -
  from assms obtain e0 where
    f: "step (fpdf_add_font env arial) (step (fpdf_set_font env arial) (Inr ())) = Inl e0"
    by (cases "fpdf_add_font env arial"; cases "fpdf_set_font env arial") auto
  show ?thesis
  proof (cases "fpdf_new_page env")
    case (Some e)
    then show ?thesis
      by (simp add: generate_pdf_report_def pdf_body_def)
  next
    case None
    note page = this
    show ?thesis
    proof (cases "fpdf_set_font env helvetica")
      case (Some e)
      with page f show ?thesis
        by (simp add: generate_pdf_report_def pdf_body_def)
    next
      case None
      note font = this
      show ?thesis
      proof (cases "fpdf_multi_cell env helvetica (concat (map ascii_equivalent content))")
        case (Some e)
        with page font f show ?thesis
          by (simp add: generate_pdf_report_def pdf_body_def pdf_finish_def
              clean_text_for_pdf_eq)
      next
        case None
        with page font f show ?thesis
          by (cases "fpdf_output env filename")
            (simp_all add: generate_pdf_report_def pdf_body_def pdf_finish_def
              clean_text_for_pdf_eq)
      qed
    qed
  qed
qed

theorem pdf_fallback_outcome_witness:
  "fpdf_add_font no_arial_env arial \<noteq> None
   \<and> first_raise
        [fpdf_new_page no_arial_env,
         fpdf_set_font no_arial_env helvetica,
         fpdf_multi_cell no_arial_env helvetica (concat (map ascii_equivalent dont_curly)),
         fpdf_output no_arial_env (py ''report.pdf'')] = None
   \<and> concat (map ascii_equivalent dont_curly) = py ''don'' @ [39] @ py ''t''
   \<and> generate_pdf_report no_arial_env dont_curly (py ''report.pdf'') world0 =
       (Inr (Some (py ''report.pdf'')),
        world0\<lparr>fs := (fs world0)(py ''report.pdf'' \<mapsto>
           Pdf \<lparr>pdf_font = helvetica, pdf_text = py ''don'' @ [39] @ py ''t''\<rparr>)\<rparr>)
   \<and> fpdf_add_font latin1_env arial \<noteq> None
   \<and> first_raise
        [fpdf_new_page latin1_env,
         fpdf_set_font latin1_env helvetica,
         fpdf_multi_cell latin1_env helvetica (concat (map ascii_equivalent done_check)),
         fpdf_output latin1_env (py ''report.pdf'')] =
       Some (Exception (py ''UnicodeEncodeError''))
   \<and> generate_pdf_report latin1_env done_check (py ''report.pdf'') world0 =
       (Inr None, err (py ''PDF generation failed: '' @ py ''UnicodeEncodeError'') world0)"
proof -
  have h: "fpdf_add_font no_arial_env arial \<noteq> None \<or> fpdf_set_font no_arial_env arial \<noteq> None"
    "fpdf_add_font latin1_env arial \<noteq> None \<or> fpdf_set_font latin1_env arial \<noteq> None"
    by (simp_all add: latin1_env_def no_arial_env_def sample_env_def)
  have a: "concat (map ascii_equivalent dont_curly) = py ''don'' @ [39] @ py ''t''"
    by (simp add: dont_curly_def ascii_equivalent_def py_def)
  have b: "concat (map ascii_equivalent done_check) = done_check"
    by (simp add: done_check_def ascii_equivalent_def py_def)
  have r1: "first_raise
        [fpdf_new_page no_arial_env,
         fpdf_set_font no_arial_env helvetica,
         fpdf_multi_cell no_arial_env helvetica (concat (map ascii_equivalent dont_curly)),
         fpdf_output no_arial_env (py ''report.pdf'')] = None"
    by (simp add: no_arial_env_def sample_env_def)
  have r2: "first_raise
        [fpdf_new_page latin1_env,
         fpdf_set_font latin1_env helvetica,
         fpdf_multi_cell latin1_env helvetica (concat (map ascii_equivalent done_check)),
         fpdf_output latin1_env (py ''report.pdf'')] =
       Some (Exception (py ''UnicodeEncodeError''))"
    unfolding b by (simp add: latin1_env_def no_arial_env_def sample_env_def done_check_def py_def)
  from pdf_fallback_outcome [OF h(1), of dont_curly "py ''report.pdf''" world0]
    pdf_fallback_outcome [OF h(2), of done_check "py ''report.pdf''" world0]
    h a r1 r2
  show ?thesis
    by (simp add: no_arial_env_def latin1_env_def sample_env_def)
qed

text \<open>
  The font load fails and the text still has a character that Helvetica cannot encode:
  \<open>generate_pdf_report\<close> returns \<open>None\<close> and there is no output file.
\<close>

theorem pdf_fallback_no_file_counterexample:
  "fpdf_add_font latin1_env arial \<noteq> None
   \<and> fst (generate_pdf_report latin1_env done_check (py ''report.pdf'') world0) = Inr None
   \<and> fs (snd (generate_pdf_report latin1_env done_check (py ''report.pdf'') world0))
        (py ''report.pdf'') = None"
  by (simp add: generate_pdf_report_def pdf_body_def pdf_finish_def clean_text_for_pdf_def
      replacements_def latin1_env_def no_arial_env_def sample_env_def done_check_def
      world0_def err_def arial_def helvetica_def py_def dq_def)

subsection \<open>Stripping\<close>




subsection \<open>The two loops\<close>

lemma extract_pages_all_read:
  "extract_pages (map Inr page_texts) acc = (Inr (), acc @ concat (map text_layer page_texts))"
proof (induction page_texts arbitrary: acc)
  case Nil
  show ?case by simp
next
  case (Cons p ps)
  then show ?case by (cases p) (simp_all add: text_layer_def)
qed




subsection \<open>Extraction\<close>

lemma write_temp_ok:
  "write_temp Disk_ok data w =
     (Inr (), w\<lparr>fs := (fs w)(temp_pdf \<mapsto> Bytes data)\<rparr>)"
  by (simp add: open_wb_def put_bytes_def close_file_def)

text \<open>
  C2.  When the file is written and opened, every page is read, and the text layers of
  the pages, concatenated in page order (a page without one adds nothing), are not blank,
  \<open>extract_text_from_pdf\<close> returns that concatenation stripped; the OCR fallback is
  not entered and no notice is shown.
\<close>

theorem text_layer_returned_without_ocr:
  assumes "temp_disk env = Disk_ok"
    and "pdfplumber_open env (Some (Bytes uploaded_file)) = Inr (map Inr page_texts)"
    and "strip (concat (map text_layer page_texts)) \<noteq> []"
  shows "extract_text_from_pdf env uploaded_file w =
           (Inr (strip (concat (map text_layer page_texts))),
            w\<lparr>fs := (fs w)(temp_pdf \<mapsto> Bytes uploaded_file)\<rparr>)
    \<and> ocr_calls (snd (extract_text_from_pdf env uploaded_file w)) = ocr_calls w
    \<and> notices (snd (extract_text_from_pdf env uploaded_file w)) = notices w"
  using assms
  by (simp add: extract_text_from_pdf_def first_try_def write_temp_ok extract_pages_all_read
      del: write_temp.simps)

theorem text_layer_returned_without_ocr_witness:
  "temp_disk two_page_env = Disk_ok
   \<and> pdfplumber_open two_page_env (Some (Bytes pdf_bytes)) =
       Inr (map Inr [None, Some (sample_text @ nl)])
   \<and> strip (concat (map text_layer [None, Some (sample_text @ nl)])) \<noteq> []
   \<and> fst (extract_text_from_pdf two_page_env pdf_bytes world0) = Inr sample_text
   \<and> ocr_calls (snd (extract_text_from_pdf two_page_env pdf_bytes world0)) = 0"
proof -
  have h: "temp_disk two_page_env = Disk_ok"
    "pdfplumber_open two_page_env (Some (Bytes pdf_bytes)) =
       Inr (map Inr [None, Some (sample_text @ nl)])"
    by (simp_all add: two_page_env_def sample_env_def)
  have s: "strip (concat (map text_layer [None, Some (sample_text @ nl)])) = sample_text"
    by (simp add: text_layer_def sample_text_def py_def nl_def strip_def isspace_def)
  have n: "strip (concat (map text_layer [None, Some (sample_text @ nl)])) \<noteq> []"
    unfolding s by (simp add: sample_text_def py_def)
  from text_layer_returned_without_ocr [OF h n, of world0] h n s show ?thesis
    by (simp add: world0_def)
qed

lemma first_try_world:
  "snd (first_try env uploaded_file w) = snd (write_temp (temp_disk env) uploaded_file w)"
  by (simp add: first_try_def split: prod.splits sum.splits)

lemma ocr_fallback_files:
  "fs (snd (ocr_fallback env acc w)) = fs w"
  "open_files (snd (ocr_fallback env acc w)) = open_files w"
  by (simp_all add: ocr_fallback_def Let_def err_def split: sum.splits)

lemma extract_text_from_pdf_files:
  "fs (snd (extract_text_from_pdf env uploaded_file w)) =
     fs (snd (write_temp (temp_disk env) uploaded_file w))"
  "open_files (snd (extract_text_from_pdf env uploaded_file w)) =
     open_files (snd (write_temp (temp_disk env) uploaded_file w))"
proof -
  obtain how acc w1 where f: "first_try env uploaded_file w = ((how, acc), w1)"
    by (metis prod.collapse)
  with first_try_world [of env uploaded_file w]
  have w1: "snd (write_temp (temp_disk env) uploaded_file w) = w1" by simp
  show "fs (snd (extract_text_from_pdf env uploaded_file w)) =
     fs (snd (write_temp (temp_disk env) uploaded_file w))"
    unfolding w1 by (cases how) (simp_all add: extract_text_from_pdf_def f ocr_fallback_files warn_def)
  show "open_files (snd (extract_text_from_pdf env uploaded_file w)) =
     open_files (snd (write_temp (temp_disk env) uploaded_file w))"
    unfolding w1 by (cases how) (simp_all add: extract_text_from_pdf_def f ocr_fallback_files warn_def)
qed

text \<open>
  C4, as the code has it.  When \<open>extract_text_from_pdf\<close> is left, the handle on
  \<open>temp.pdf\<close> is closed again, whatever happened, but the file is not removed: it
  holds the uploaded bytes when the write succeeded, the bytes written so far when the
  write raised, and it is as it was when \<open>open\<close> raised.  No other file is touched.
\<close>

theorem temp_file_left_behind:
  "open_files (snd (extract_text_from_pdf env uploaded_file w)) = open_files w
   \<and> fs (snd (extract_text_from_pdf env uploaded_file w)) =
       (case temp_disk env of
          Disk_ok \<Rightarrow> (fs w)(temp_pdf \<mapsto> Bytes uploaded_file)
        | Open_raises e \<Rightarrow> fs w
        | Write_raises e n \<Rightarrow> (fs w)(temp_pdf \<mapsto> Bytes (take n uploaded_file)))
   \<and> (temp_disk env = Disk_ok \<longrightarrow>
        fs (snd (extract_text_from_pdf env uploaded_file w)) temp_pdf =
          Some (Bytes uploaded_file))"
  by (cases "temp_disk env")
    (simp_all add: extract_text_from_pdf_files open_wb_def put_bytes_def close_file_def)

theorem temp_file_left_behind_witness:
  "temp_disk sample_env = Disk_ok
   \<and> fs (snd (extract_text_from_pdf sample_env pdf_bytes world0)) temp_pdf =
       Some (Bytes pdf_bytes)
   \<and> open_files (snd (extract_text_from_pdf sample_env pdf_bytes world0)) = []"
  using temp_file_left_behind [of sample_env pdf_bytes world0]
  by (simp add: sample_env_def world0_def)

text \<open>
  After a call that returns the text layer, and after a call in which both strategies
  fail, \<open>temp.pdf\<close> is still there.
\<close>

theorem temp_file_removed_counterexample:
  "fst (extract_text_from_pdf sample_env pdf_bytes world0) = Inr sample_text
   \<and> fs (snd (extract_text_from_pdf sample_env pdf_bytes world0)) temp_pdf \<noteq> None
   \<and> fst (extract_text_from_pdf broken_env pdf_bytes world0) = Inr []
   \<and> fs (snd (extract_text_from_pdf broken_env pdf_bytes world0)) temp_pdf \<noteq> None"
  by (simp add: extract_text_from_pdf_def first_try_def ocr_fallback_def sample_env_def
      broken_env_def world0_def warn_def err_def open_wb_def put_bytes_def close_file_def
      sample_text_def py_def strip_def isspace_def)






text \<open>
  \<open>text\<close> is not reset before the second \<open>try\<close>: when reading a later page raises,
  the text of the pages read so far stays in front of the OCR output.
\<close>

lemma partial_text_kept_before_ocr:
  "fst (first_try torn_env pdf_bytes world0) =
     (Raises (Exception (py ''PDFSyntaxError'')), py ''Cover'')
   \<and> fst (extract_text_from_pdf torn_env pdf_bytes world0) =
       Inr (py ''Cover Page one'' @ nl @ py ''Page two'')"
  by (simp add: extract_text_from_pdf_def first_try_def ocr_fallback_def torn_env_def
      scanned_env_def sample_env_def world0_def open_wb_def put_bytes_def close_file_def
      warn_def py_def nl_def strip_def isspace_def)

text \<open>
  When \<open>open("temp.pdf", "wb")\<close> raises, the second \<open>try\<close> reads the file that an
  earlier call left: the result is the OCR text of that file, whatever was uploaded.
\<close>

lemma stale_scratch_file_read:
  "fst (extract_text_from_pdf readonly_env pdf_bytes stale_world) = Inr (py ''Old scan'')
   \<and> fs (snd (extract_text_from_pdf readonly_env pdf_bytes stale_world)) temp_pdf =
       Some (Bytes [1, 2, 3])"
  by (simp add: extract_text_from_pdf_def first_try_def ocr_fallback_def readonly_env_def
      scanned_env_def sample_env_def stale_world_def world0_def warn_def pdf_bytes_def
      py_def nl_def strip_def isspace_def)

end
